theory Spec2Isabelle
  imports Complex_Main "HOL-Library.Word"
begin

section \<open>Strings of the client\<close>

text \<open>
  A JavaScript string is a sequence of UTF-16 code units; \<open>s.length\<close> counts code units.
  Property names and literal tags of the source stay Isabelle strings.
\<close>

type_synonym js_string = "16 word list"

definition of_ascii :: "string \<Rightarrow> js_string" where
  "of_ascii s = map of_char s"

text \<open>
  \<open>String.prototype.trim\<close> removes WhiteSpace and LineTerminator code units from both ends
  (ECMAScript: TAB, LF, VT, FF, CR, SP, NBSP, the Zs category, LS, PS, BOM).
\<close>

definition is_ws :: "16 word \<Rightarrow> bool" where
  "is_ws c = (c \<in> {0x9, 0xA, 0xB, 0xC, 0xD, 0x20, 0xA0, 0x1680, 0x2028, 0x2029,
                    0x202F, 0x205F, 0x3000, 0xFEFF} \<or> (0x2000 \<le> c \<and> c \<le> 0x200A))"

definition trim :: "js_string \<Rightarrow> js_string" where
  "trim s = rev (dropWhile is_ws (rev (dropWhile is_ws s)))"

text \<open>\<open>s.split(sep)\<close> for a one-unit separator: the pieces between the separators, never an empty array.\<close>

fun split :: "16 word \<Rightarrow> js_string \<Rightarrow> js_string list" where
  "split sep [] = [[]]"
| "split sep (c # cs) =
     (if c = sep then [] # split sep cs
      else (case split sep cs of
              [] \<Rightarrow> [[c]]
            | p # ps \<Rightarrow> (c # p) # ps))"

definition comma :: "16 word" where
  "comma = 0x2C"

section \<open>The create-audit form (NewAuditPage, src/unnamed/part_002)\<close>

subsection \<open>Validation schema\<close>

datatype YesNo = Yes | No

datatype Assessment = A1 | A2 | A3 | A4 | A5

record AuditFormData =
  brand_name :: js_string
  industry :: js_string
  "keywords" :: js_string
  target_market_language :: js_string
  ai_concerns :: "js_string list option"
  xoobay_mall_interest :: "YesNo option"
  xoorwa_interest :: "YesNo option"
  contact_name :: js_string
  company_email :: js_string
  company_website :: js_string
  headquarters_location :: js_string
  core_product_keywords :: "js_string list"
  competitor_names :: "js_string option"
  visibility_self_assessment :: "Assessment option"
  monthly_budget :: "js_string option"
  xoopay_service_need :: "YesNo option"
  position :: js_string
  contact_communication_id :: js_string

text \<open>The issue codes zod reports for the checks the schema uses, and an issue with its path.\<close>

datatype ZodIssueCode = too_small | too_big | invalid_string | custom

datatype ZodIssue = ZodIssue (path: string) (index: "nat option") (code: ZodIssueCode)

definition z_min :: "nat \<Rightarrow> 'a list \<Rightarrow> ZodIssueCode list" where
  "z_min n s = (if length s < n then [too_small] else [])"

definition z_max :: "nat \<Rightarrow> 'a list \<Rightarrow> ZodIssueCode list" where
  "z_max n s = (if length s > n then [too_big] else [])"

definition z_check :: "bool \<Rightarrow> ZodIssueCode \<Rightarrow> ZodIssueCode list" where
  "z_check ok c = (if ok then [] else [c])"

definition at_path :: "string \<Rightarrow> ZodIssueCode list \<Rightarrow> ZodIssue list" where
  "at_path p cs = map (ZodIssue p None) cs"

text \<open>\<open>brand_name: z.string().min(1, ...).max(100, ...)\<close>\<close>

definition brand_name_schema :: "js_string \<Rightarrow> ZodIssueCode list" where
  "brand_name_schema s = z_min 1 s @ z_max 100 s"

text \<open>
  \<open>core_product_keywords: z.array(z.string().min(1)).min(1).max(3)\<close>: the checks on the
  array, then the check of every element under its index.
\<close>

definition core_product_keywords_schema :: "js_string list \<Rightarrow> ZodIssue list" where
  "core_product_keywords_schema ks =
     at_path ''core_product_keywords'' (z_min 1 ks @ z_max 3 ks) @
     concat (map (\<lambda>(i, k). map (ZodIssue ''core_product_keywords'' (Some i)) (z_min 1 k))
                 (enumerate 0 ks))"

text \<open>
  \<open>auditFormSchema\<close>. The string formats \<open>.email()\<close> and \<open>.url()\<close> are zod's own and are
  parameters here (\<open>is_email\<close>, \<open>is_url\<close>). The optional fields have no check of their own:
  their types hold exactly the values the schema admits.
\<close>

definition auditFormSchema ::
  "(js_string \<Rightarrow> bool) \<Rightarrow> (js_string \<Rightarrow> bool) \<Rightarrow> AuditFormData \<Rightarrow> ZodIssue list" where
  "auditFormSchema is_email is_url d =
     at_path ''brand_name'' (brand_name_schema (brand_name d)) @
     at_path ''industry'' (z_min 1 (industry d)) @
     at_path ''keywords'' (z_min 1 (keywords d)) @
     at_path ''target_market_language'' (z_min 1 (target_market_language d)) @
     at_path ''contact_name'' (z_min 1 (contact_name d) @ z_max 100 (contact_name d)) @
     at_path ''company_email''
       (z_min 1 (company_email d) @ z_check (is_email (company_email d)) invalid_string) @
     at_path ''company_website''
       (z_min 1 (company_website d) @ z_check (is_url (company_website d)) custom) @
     at_path ''headquarters_location''
       (z_min 1 (headquarters_location d) @ z_max 200 (headquarters_location d)) @
     core_product_keywords_schema (core_product_keywords d) @
     at_path ''position'' (z_min 1 (position d) @ z_max 100 (position d)) @
     at_path ''contact_communication_id''
       (z_min 1 (contact_communication_id d) @ z_max 100 (contact_communication_id d))"

subsection \<open>Submission\<close>

record AuditRequest =
  brand_name :: js_string
  target_brand :: js_string
  "keywords" :: "js_string list"
  target_website :: "js_string option"
  ground_truth :: "(js_string \<times> js_string) list option"

text \<open>The \<open>requestData\<close> that \<open>onSubmit\<close> builds and passes to \<open>createAudit\<close>.\<close>

definition keywordArray :: "AuditFormData \<Rightarrow> js_string list" where
  "keywordArray d =
     filter (\<lambda>k. length k > 0) (map trim (split comma (AuditFormData.keywords d)))"

definition requestData :: "AuditFormData \<Rightarrow> AuditRequest" where
  "requestData d =
     \<lparr> brand_name = trim (AuditFormData.brand_name d),
       target_brand = trim (AuditFormData.brand_name d),
       keywords = (if length (keywordArray d) > 0 then keywordArray d
                   else [trim (AuditFormData.brand_name d)]),
       target_website = Some (trim (company_website d)),
       ground_truth = None \<rparr>"

text \<open>
  \<open>handleSubmit\<close> of react-hook-form with the zod resolver: \<open>onSubmit\<close> runs, and the request
  is sent, only when the schema reports no issue.
\<close>

definition handleSubmit ::
  "(js_string \<Rightarrow> bool) \<Rightarrow> (js_string \<Rightarrow> bool) \<Rightarrow> AuditFormData \<Rightarrow> AuditRequest option" where
  "handleSubmit is_email is_url d =
     (if auditFormSchema is_email is_url d = [] then Some (requestData d) else None)"

subsection \<open>The core-product-keywords tag input\<close>

text \<open>
  \<open>coreProductKeywords\<close> is the form's \<open>core_product_keywords\<close> field as \<open>watch\<close> returns it,
  written only by the two handlers below; \<open>coreProductKeywordInput\<close> is the state of the text
  input. The keys the handler tells apart are Enter, the comma and Backspace.
\<close>

datatype Key = Enter | Comma | Backspace | OtherKey

record TagInput =
  coreProductKeywords :: "js_string list"
  coreProductKeywordInput :: js_string

definition handleCoreProductKeywordKeyDown :: "Key \<Rightarrow> TagInput \<Rightarrow> TagInput" where
  "handleCoreProductKeywordKeyDown key s =
     (if key = Enter \<or> key = Comma then
        (let v = trim (coreProductKeywordInput s) in
         if v \<noteq> [] \<and> v \<notin> set (coreProductKeywords s) then
           (if length (coreProductKeywords s) < 3
            then s\<lparr>coreProductKeywords := coreProductKeywords s @ [v],
                   coreProductKeywordInput := []\<rparr>
            else s)
         else s)
      else if key = Backspace \<and> coreProductKeywordInput s = [] \<and> length (coreProductKeywords s) > 0
      then s\<lparr>coreProductKeywords := butlast (coreProductKeywords s)\<rparr>
      else s)"

text \<open>\<open>coreProductKeywords.filter((_, i) => i !== index)\<close>\<close>

definition removeCoreProductKeyword :: "nat \<Rightarrow> TagInput \<Rightarrow> TagInput" where
  "removeCoreProductKeyword i s =
     s\<lparr>coreProductKeywords :=
         map snd (filter (\<lambda>(j, k). j \<noteq> i) (enumerate 0 (coreProductKeywords s)))\<rparr>"

text \<open>
  What the user can do to the tag input: press a key in it, edit its text, click the remove
  button of a tag. The form starts with no keyword and an empty input.
\<close>

datatype TagEvent = KeyDown Key | Change js_string | Remove nat

fun tag_step :: "TagInput \<Rightarrow> TagEvent \<Rightarrow> TagInput" where
  "tag_step s (KeyDown k) = handleCoreProductKeywordKeyDown k s"
| "tag_step s (Change t) = s\<lparr>coreProductKeywordInput := t\<rparr>"
| "tag_step s (Remove i) = removeCoreProductKeyword i s"

definition tag_init :: TagInput where
  "tag_init = \<lparr>coreProductKeywords = [], coreProductKeywordInput = []\<rparr>"

definition tag_run :: "TagEvent list \<Rightarrow> TagInput" where
  "tag_run es = foldl tag_step tag_init es"

text \<open>The invariant of the keyword list.\<close>

definition tag_inv :: "TagInput \<Rightarrow> bool" where
  "tag_inv s = (length (coreProductKeywords s) \<le> 3 \<and> distinct (coreProductKeywords s))"

text \<open>
  A session at the tag input: three keywords are added, a repeated one (after trimming) and
  a fourth one are not.
\<close>

definition example_tag_events :: "TagEvent list" where
  "example_tag_events =
     [Change (of_ascii ''fan''), KeyDown Enter,
      Change (of_ascii '' fan ''), KeyDown Enter,
      Change (of_ascii ''air''), KeyDown Comma,
      Change (of_ascii ''dry''), KeyDown Enter,
      Change (of_ascii ''hot''), KeyDown Enter]"

text \<open>A form as a user may fill it in, with 21 comma-separated keywords, and one with two.\<close>

definition example_form :: "js_string \<Rightarrow> AuditFormData" where
  "example_form kws =
     \<lparr> AuditFormData.brand_name = of_ascii ''Dyson'',
       industry = of_ascii ''tech'',
       AuditFormData.keywords = kws,
       target_market_language = of_ascii ''en'',
       ai_concerns = Some [],
       xoobay_mall_interest = None,
       xoorwa_interest = None,
       contact_name = of_ascii ''Li'',
       company_email = of_ascii ''li@dyson.com'',
       company_website = of_ascii ''https://dyson.com'',
       headquarters_location = of_ascii ''SG'',
       core_product_keywords = [of_ascii ''fan''],
       competitor_names = Some [],
       visibility_self_assessment = None,
       monthly_budget = Some [],
       xoopay_service_need = None,
       position = of_ascii ''PM'',
       contact_communication_id = of_ascii ''li-1'' \<rparr>"

definition keywords21 :: js_string where
  "keywords21 = of_ascii ''a,b,c,d,e,f,g,h,i,j,k,l,m,n,o,p,q,r,s,t,u''"

definition accepts_example_email :: "js_string \<Rightarrow> bool" where
  "accepts_example_email s = (s = of_ascii ''li@dyson.com'')"

definition accepts_example_url :: "js_string \<Rightarrow> bool" where
  "accepts_example_url s = (s = of_ascii ''https://dyson.com'')"

section \<open>Wire types of the client (types/api.ts)\<close>

text \<open>
  The status literals. \<open>AuditResponse.status\<close> is declared over the first four; the list
  page's own type \<open>AuditStatus\<close> adds \<open>'all'\<close> for its filter, and the page compares the two
  with \<open>===\<close>.
\<close>

datatype AuditStatus = pending | running | completed | failed | all

record ScoreBreakdown =
  som_score :: real
  som_percentage :: real
  citation_score :: real
  official_citations :: nat
  authoritative_citations :: nat
  ranking_score :: real
  average_ranking :: "real option"
  top3_count :: nat
  accuracy_score :: real
  accuracy_percentage :: real
  hallucination_count :: nat

record Weights =
  som :: real
  citation :: real
  ranking :: real
  accuracy :: real

record ConfidenceInterval =
  lower :: real
  upper :: real

text \<open>
  \<open>GeoScore\<close> as the client declares it, with the reason flag the specification gives the
  Geo Scorer's result (\<open>insufficient_data\<close>).
\<close>

datatype ScoreReason = insufficient_data

record GeoScore =
  overall_score :: real
  breakdown :: ScoreBreakdown
  weights :: Weights
  confidence_interval :: "ConfidenceInterval option"
  test_count :: nat
  models_tested :: "js_string list"
  keywords_tested :: "js_string list"
  timestamp :: js_string
  reason :: "ScoreReason option"

text \<open>The strategy of an audit is not inspected by any function modelled here.\<close>

typedecl Strategy

record AuditResponse =
  audit_id :: js_string
  brand_name :: js_string
  target_brand :: js_string
  "keywords" :: "js_string list"
  status :: AuditStatus
  geo_score :: "real option"
  geo_score_detail :: "GeoScore option"
  strategy :: "Strategy option"
  started_at :: js_string
  completed_at :: "js_string option"
  error :: "js_string option"

section \<open>The audit list page (app/audits/page.tsx)\<close>

definition filteredAudits :: "AuditResponse list \<Rightarrow> AuditStatus \<Rightarrow> AuditResponse list" where
  "filteredAudits audits statusFilter =
     (if statusFilter = all then audits
      else filter (\<lambda>audit. status audit = statusFilter) audits)"

definition filteredTotal :: "AuditResponse list \<Rightarrow> nat \<Rightarrow> AuditStatus \<Rightarrow> nat" where
  "filteredTotal audits total_n statusFilter =
     (if statusFilter = all then total_n else length (filteredAudits audits statusFilter))"

section \<open>The score overview (components/scoring)\<close>

text \<open>\<open>Math.max(0, Math.min(100, score))\<close> on a number that is a real (not NaN).\<close>

definition normalizedScore :: "real \<Rightarrow> real" where
  "normalizedScore score = max 0 (min 100 score)"

section \<open>Polling of an audit\<close>




subsection \<open>The audit detail page (app/audits/[id]/page.tsx)\<close>



subsection \<open>The brand report page (BrandReportPage, src/unnamed/part_003)\<close>



subsection \<open>One completed fetch on a page\<close>









text \<open>Example audits, without a score.\<close>

definition example_audit :: "string \<Rightarrow> AuditStatus \<Rightarrow> AuditResponse" where
  "example_audit ident st =
     \<lparr> audit_id = of_ascii ident, brand_name = of_ascii ''Dyson'',
       target_brand = of_ascii ''Dyson'', keywords = [of_ascii ''fan''], status = st,
       geo_score = None, geo_score_detail = None, strategy = None,
       started_at = of_ascii ''2024-01-01'', completed_at = None, error = None \<rparr>"

section \<open>Errors of the API client (lib/api/types.ts)\<close>

text \<open>
  The argument of \<open>extractApiError\<close> is \<open>unknown\<close>: any JavaScript value. The values here are
  plain data: the primitives, and objects with data properties that are instances of
  \<open>Error\<close> or not (no accessor properties, proxies, functions or symbols). An instance of
  \<open>Error\<close> inherits \<open>message = ''\<close> and \<open>name = 'Error'\<close> from its prototype.
\<close>

datatype obj_class = PlainObject | ErrorObject

datatype js_value =
    Undefined
  | Null
  | Bool bool
  | Num real
  | NaN
  | Str js_string
  | Obj obj_class "(string \<times> js_value) list"

datatype js_exception = TypeError

definition typeof :: "js_value \<Rightarrow> string" where
  "typeof v =
     (case v of
        Undefined \<Rightarrow> ''undefined''
      | Null \<Rightarrow> ''object''
      | Bool _ \<Rightarrow> ''boolean''
      | Num _ \<Rightarrow> ''number''
      | NaN \<Rightarrow> ''number''
      | Str _ \<Rightarrow> ''string''
      | Obj _ _ \<Rightarrow> ''object'')"

definition truthy :: "js_value \<Rightarrow> bool" where
  "truthy v =
     (case v of
        Undefined \<Rightarrow> False
      | Null \<Rightarrow> False
      | Bool b \<Rightarrow> b
      | Num x \<Rightarrow> x \<noteq> 0
      | NaN \<Rightarrow> False
      | Str s \<Rightarrow> s \<noteq> []
      | Obj _ _ \<Rightarrow> True)"

text \<open>\<open>a || b\<close>\<close>

definition js_or :: "js_value \<Rightarrow> js_value \<Rightarrow> js_value" where
  "js_or a b = (if truthy a then a else b)"

text \<open>What an object inherits: the data properties of \<open>Error.prototype\<close>.\<close>

definition inherited :: "obj_class \<Rightarrow> string \<Rightarrow> js_value option" where
  "inherited c k =
     (if c = ErrorObject \<and> k = ''message'' then Some (Str [])
      else if c = ErrorObject \<and> k = ''name'' then Some (Str (of_ascii ''Error''))
      else None)"

text \<open>
  \<open>v.k\<close> throws a TypeError on \<open>undefined\<close> and \<open>null\<close>. The other primitives have none of
  the properties read here (\<open>response\<close>, \<open>data\<close>, \<open>status\<close>, \<open>error\<close>, \<open>detail\<close>,
  \<open>message\<close>).
\<close>

definition get_prop :: "js_value \<Rightarrow> string \<Rightarrow> js_exception + js_value" where
  "get_prop v k =
     (case v of
        Undefined \<Rightarrow> Inl TypeError
      | Null \<Rightarrow> Inl TypeError
      | Obj c props \<Rightarrow>
          (case map_of props k of
             Some x \<Rightarrow> Inr x
           | None \<Rightarrow> (case inherited c k of Some x \<Rightarrow> Inr x | None \<Rightarrow> Inr Undefined))
      | _ \<Rightarrow> Inr Undefined)"

text \<open>\<open>v?.k\<close>\<close>

definition opt_chain :: "js_value \<Rightarrow> string \<Rightarrow> js_exception + js_value" where
  "opt_chain v k = (if v = Undefined \<or> v = Null then Inr Undefined else get_prop v k)"

text \<open>\<open>k in v\<close> throws a TypeError when \<open>v\<close> is not an object.\<close>

definition in_op :: "string \<Rightarrow> js_value \<Rightarrow> js_exception + bool" where
  "in_op k v =
     (case v of
        Obj c props \<Rightarrow> Inr (map_of props k \<noteq> None \<or> inherited c k \<noteq> None)
      | _ \<Rightarrow> Inl TypeError)"

definition instanceof_Error :: "js_value \<Rightarrow> bool" where
  "instanceof_Error v = (case v of Obj c _ \<Rightarrow> c = ErrorObject | _ \<Rightarrow> False)"

text \<open>Sequencing: an exception ends the evaluation.\<close>

definition and_then :: "'e + 'a \<Rightarrow> ('a \<Rightarrow> 'e + 'b) \<Rightarrow> 'e + 'b" where
  "and_then m f = (case m of Inl e \<Rightarrow> Inl e | Inr x \<Rightarrow> f x)"

text \<open>
  \<open>ApiError\<close> as the function builds it; a property the object literal leaves out reads as
  \<open>undefined\<close>. The two default messages are the source's literals, as code units.
\<close>

record ApiError =
  message :: js_value
  status :: js_value
  detail :: js_value

definition request_failed_message :: js_value where
  "request_failed_message = Str [0x8BF7, 0x6C42, 0x5931, 0x8D25]"

definition unknown_error_message :: js_value where
  "unknown_error_message = Str [0x672A, 0x77E5, 0x9519, 0x8BEF]"

definition extractApiError :: "js_value \<Rightarrow> js_exception + ApiError" where
  "extractApiError err =
     and_then (if typeof err = ''object'' \<and> err \<noteq> Null then in_op ''response'' err
               else Inr False) (\<lambda>has_response.
     and_then (if has_response then get_prop err ''response'' else Inr Undefined) (\<lambda>response.
       if has_response \<and> truthy response then
         and_then (get_prop response ''data'') (\<lambda>data1.
         and_then (opt_chain data1 ''error'') (\<lambda>data_error.
         and_then (get_prop response ''status'') (\<lambda>response_status.
         and_then (get_prop response ''data'') (\<lambda>data2.
         and_then (opt_chain data2 ''detail'') (\<lambda>data_detail.
           Inr \<lparr> message = js_or data_error request_failed_message,
                 status = response_status,
                 detail = data_detail \<rparr>)))))
       else if instanceof_Error err then
         and_then (get_prop err ''message'') (\<lambda>error_message.
           Inr \<lparr> message = js_or error_message unknown_error_message,
                 status = Undefined,
                 detail = Undefined \<rparr>)
       else
         Inr \<lparr> message = unknown_error_message, status = Undefined, detail = Undefined \<rparr>))"

text \<open>
  Reading a path of properties where nothing can throw: \<open>undefined\<close> for a property of
  \<open>undefined\<close> or \<open>null\<close>. Used to state what the function returns.
\<close>

definition prop_of :: "js_value \<Rightarrow> string \<Rightarrow> js_value" where
  "prop_of v k = (case get_prop v k of Inl _ \<Rightarrow> Undefined | Inr x \<Rightarrow> x)"

definition is_string_or_nullish :: "js_value \<Rightarrow> bool" where
  "is_string_or_nullish v = (case v of Str _ \<Rightarrow> True | Undefined \<Rightarrow> True | Null \<Rightarrow> True | _ \<Rightarrow> False)"

definition is_nonempty_string :: "js_value \<Rightarrow> bool" where
  "is_nonempty_string v = (case v of Str s \<Rightarrow> s \<noteq> [] | _ \<Rightarrow> False)"

text \<open>
  Example errors: a 404 of the server with an error text, one with a \<open>detail\<close> only, a thrown
  string, and a response whose \<open>error\<close> is an object.
\<close>

definition example_axios_detail_only :: js_value where
  "example_axios_detail_only =
     Obj ErrorObject
       [(''message'', Str (of_ascii ''Request failed with status code 404'')),
        (''response'', Obj PlainObject
           [(''status'', Num 404),
            (''data'', Obj PlainObject [(''detail'', Str (of_ascii ''Not Found''))])])]"

definition example_axios_404 :: js_value where
  "example_axios_404 =
     Obj ErrorObject
       [(''message'', Str (of_ascii ''Request failed with status code 404'')),
        (''response'', Obj PlainObject
           [(''status'', Num 404),
            (''data'', Obj PlainObject
               [(''error'', Str (of_ascii ''Not found'')),
                (''detail'', Str (of_ascii ''no such audit''))])])]"

definition example_thrown_string :: js_value where
  "example_thrown_string = Str (of_ascii ''boom'')"

definition example_error_object_response :: js_value where
  "example_error_object_response =
     Obj ErrorObject
       [(''message'', Str (of_ascii ''Request failed with status code 429'')),
        (''response'', Obj PlainObject
           [(''status'', Num 429),
            (''data'', Obj PlainObject
               [(''error'', Obj PlainObject [(''message'', Str (of_ascii ''rate limited''))])])])]"

section \<open>The bar chart of the score breakdown (components/scoring/ScoreBreakdown.tsx)\<close>

text \<open>\<open>w || d\<close> on a number: \<open>0\<close> is falsy.\<close>

definition num_or :: "real \<Rightarrow> real \<Rightarrow> real" where
  "num_or w d = (if w = 0 then d else w)"

record BarDatum =
  name :: string
  score :: real
  weight :: real
  color :: string

definition barData :: "GeoScore \<Rightarrow> BarDatum list" where
  "barData geoScore =
     [ \<lparr> name = ''SOM'', score = som_score (breakdown geoScore),
         weight = num_or (som (weights geoScore)) 0.4, color = ''#3b82f6'' \<rparr>,
       \<lparr> name = ''Citation'', score = citation_score (breakdown geoScore),
         weight = num_or (citation (weights geoScore)) 0.3, color = ''#10b981'' \<rparr>,
       \<lparr> name = ''Ranking'', score = ranking_score (breakdown geoScore),
         weight = num_or (ranking (weights geoScore)) 0.2, color = ''#f59e0b'' \<rparr>,
       \<lparr> name = ''Accuracy'', score = accuracy_score (breakdown geoScore),
         weight = num_or (accuracy (weights geoScore)) 0.1, color = ''#ef4444'' \<rparr> ]"

section \<open>The Geo Scorer (specification 4.3)\<close>

text \<open>
  Modelled from the spec: the probe records of the data model (specification 3), which the
  extractor hands to the scorer; their code is not among the sources.
\<close>

record ProbeSpec =
  keyword :: js_string
  provider :: js_string
  sampling_variant :: nat

datatype Sentiment = Positive | Neutral | Negative

record BrandMention =
  brand :: js_string
  mentioned :: bool
  ranking_position :: "nat option"
  sentiment :: Sentiment
  is_target_brand :: bool

datatype ExtractionStatus = Ok | Repaired | Discarded

record ProbeResult =
  probe_spec :: ProbeSpec
  brand_mentions :: "BrandMention list"
  total_mentions :: nat
  has_target_brand :: bool
  target_brand_ranking :: "nat option"
  target_brand_sentiment :: "Sentiment option"
  official_citation_count :: nat
  authoritative_citation_count :: nat
  extraction_status :: ExtractionStatus

text \<open>
  Modelled from the spec: what specification 4.3 leaves open in the scorer's algorithm, as
  parameters: the citation, ranking and accuracy functions, the hallucination counter, the
  interval estimator, and the clock.
\<close>

record ScorerParts =
  citation_fn :: "nat \<Rightarrow> nat \<Rightarrow> real"
  ranking_fn :: "nat option list \<Rightarrow> real"
  accuracy_fn :: "ProbeResult list \<Rightarrow> real"
  hallucination_fn :: "ProbeResult list \<Rightarrow> nat"
  interval_fn :: "nat \<Rightarrow> nat \<Rightarrow> real \<times> real"
  now :: js_string

datatype scorer_error = ZeroDivisionError

text \<open>
  Modelled from the spec: the default weights of the contract of \<open>score\<close>, and the clamp to
  [0, 100] of its failure semantics.
\<close>

definition default_weights :: Weights where
  "default_weights = \<lparr> som = 0.4, citation = 0.3, ranking = 0.2, accuracy = 0.1 \<rparr>"

definition clamp100 :: "real \<Rightarrow> real" where
  "clamp100 x = max 0 (min 100 x)"

text \<open>
  Modelled from the spec: step 2, \<open>mentioned_count / total_results * 100\<close>; the division
  fails on no results.
\<close>

definition mentioned_count :: "ProbeResult list \<Rightarrow> nat" where
  "mentioned_count results = length (filter has_target_brand results)"

definition som_of :: "ProbeResult list \<Rightarrow> scorer_error + real" where
  "som_of results =
     (if length results = 0 then Inl ZeroDivisionError
      else Inr (real (mentioned_count results) / real (length results) * 100))"

text \<open>
  Modelled from the spec: the rankings of the results that mention the target brand, the
  supporting counters over them, and the all-zero breakdown of the zero-data guard.
\<close>

definition rankings :: "ProbeResult list \<Rightarrow> nat option list" where
  "rankings results = map target_brand_ranking (filter has_target_brand results)"

definition ranked :: "ProbeResult list \<Rightarrow> nat list" where
  "ranked results = concat (map (\<lambda>r. case r of None \<Rightarrow> [] | Some k \<Rightarrow> [k]) (rankings results))"

definition average_of :: "nat list \<Rightarrow> real option" where
  "average_of ks = (if ks = [] then None else Some (real (sum_list ks) / real (length ks)))"

definition zero_breakdown :: ScoreBreakdown where
  "zero_breakdown =
     \<lparr> som_score = 0, som_percentage = 0, citation_score = 0, official_citations = 0,
       authoritative_citations = 0, ranking_score = 0, average_ranking = Some 0,
       top3_count = 0, accuracy_score = 0, accuracy_percentage = 0,
       hallucination_count = 0 \<rparr>"

text \<open>
  Modelled from the spec: the Geo Scorer's \<open>score(results, weights)\<close> of specification 4.3,
  whose code (the repository's \<open>src/scorers\<close>) is not among the sources. Step 1 is the
  zero-data guard; steps 2 to 5 give the sub-scores, each kept in [0, 100] as the failure
  semantics ask; step 6 is the weighted sum, clamped to [0, 100]; step 7 the interval.
\<close>

definition score :: "ScorerParts \<Rightarrow> ProbeResult list \<Rightarrow> Weights \<Rightarrow> scorer_error + GeoScore" where
  "score P results w =
     (if results = [] then
        Inr \<lparr> overall_score = 0, breakdown = zero_breakdown, weights = w,
              confidence_interval = Some \<lparr> lower = 0, upper = 0 \<rparr>, test_count = 0,
              models_tested = [], keywords_tested = [], timestamp = now P,
              reason = Some insufficient_data \<rparr>
      else
        and_then (som_of results) (\<lambda>som_raw.
          (let s = clamp100 som_raw;
               official = sum_list (map official_citation_count results);
               authoritative = sum_list (map authoritative_citation_count results);
               c = clamp100 (citation_fn P official authoritative);
               r = clamp100 (ranking_fn P (rankings results));
               a = clamp100 (accuracy_fn P results);
               ci = interval_fn P (mentioned_count results) (length results)
           in Inr \<lparr> overall_score =
                       clamp100 (som w * s + citation w * c + ranking w * r + accuracy w * a),
                     breakdown =
                       \<lparr> som_score = s, som_percentage = s, citation_score = c,
                         official_citations = official,
                         authoritative_citations = authoritative,
                         ranking_score = r, average_ranking = average_of (ranked results),
                         top3_count = length (filter (\<lambda>k. k \<le> 3) (ranked results)),
                         accuracy_score = a, accuracy_percentage = a,
                         hallucination_count = hallucination_fn P results \<rparr>,
                     weights = w,
                     confidence_interval = Some \<lparr> lower = fst ci, upper = snd ci \<rparr>,
                     test_count = length results,
                     models_tested = remdups (map (\<lambda>x. provider (probe_spec x)) results),
                     keywords_tested = remdups (map (\<lambda>x. keyword (probe_spec x)) results),
                     timestamp = now P,
                     reason = None \<rparr>)))"

text \<open>Example inputs of the scorer.\<close>

definition example_parts :: ScorerParts where
  "example_parts =
     \<lparr> citation_fn = (\<lambda>official authoritative. real (2 * official + authoritative) * 10),
       ranking_fn = (\<lambda>ranks. if ranks = [] then 0 else 75),
       accuracy_fn = (\<lambda>results. 50),
       hallucination_fn = (\<lambda>results. 0),
       interval_fn = (\<lambda>m n. (0, 100)),
       now = of_ascii ''2024-01-01T00:00:00Z'' \<rparr>"

definition example_probe :: "bool \<Rightarrow> nat option \<Rightarrow> nat \<Rightarrow> nat \<Rightarrow> ProbeResult" where
  "example_probe m rank official authoritative =
     \<lparr> probe_spec = \<lparr> keyword = of_ascii ''fan'', provider = of_ascii ''p1'',
                      sampling_variant = 0 \<rparr>,
       brand_mentions = [], total_mentions = (if m then 1 else 0), has_target_brand = m,
       target_brand_ranking = rank, target_brand_sentiment = None,
       official_citation_count = official, authoritative_citation_count = authoritative,
       extraction_status = Ok \<rparr>"

definition six_probes :: "ProbeResult list" where
  "six_probes =
     [example_probe True (Some 1) 1 0, example_probe True (Some 3) 1 1,
      example_probe True (Some 2) 0 0, example_probe True None 0 0,
      example_probe False None 0 0, example_probe False None 0 0]"

definition zero_score :: GeoScore where
  "zero_score =
     \<lparr> overall_score = 0, breakdown = zero_breakdown, weights = default_weights,
       confidence_interval = Some \<lparr> lower = 0, upper = 0 \<rparr>, test_count = 0,
       models_tested = [], keywords_tested = [], timestamp = of_ascii ''2024-01-01T00:00:00Z'',
       reason = Some insufficient_data \<rparr>"

section \<open>The render of the audit detail page (app/audits/[id]/page.tsx)\<close>

text \<open>
  The two formatters of lib/utils/formatters.ts that the page calls on its timestamps. What
  \<open>Date\<close> and date-fns compute is a parameter: whether \<open>new Date(s)\<close> is a valid date, the
  text of \<open>format\<close>, and the text of \<open>formatDistanceToNow\<close>. \<open>formatDateTime\<close> checks the
  date and never throws; \<open>formatRelativeTime\<close> does not check it, and
  \<open>formatDistanceToNow\<close> throws a RangeError on an invalid date.
\<close>

record DateLib =
  is_valid :: "js_string \<Rightarrow> bool"
  format_text :: "js_string \<Rightarrow> js_string"
  distance_text :: "js_string \<Rightarrow> js_string"

datatype render_exception = RangeError

definition formatDateTime :: "DateLib \<Rightarrow> js_string \<Rightarrow> js_string" where
  "formatDateTime L date =
     (if date = [] then of_ascii ''N/A''
      else if \<not> is_valid L date then of_ascii ''Invalid Date''
      else format_text L date)"

definition formatRelativeTime :: "DateLib \<Rightarrow> js_string \<Rightarrow> render_exception + js_string" where
  "formatRelativeTime L date =
     (if is_valid L date then Inr (distance_text L date) else Inl RangeError)"

text \<open>
  What the page shows of a loaded audit, as far as it depends on the timestamps, the
  status, the score and the error: the two time rows, the score section, the error box and
  the progress hint. The other parts display fields of the audit as they are.
\<close>

datatype score_section = ScoreOverview real "GeoScore option" | NoScoreWarning | NoSection

datatype status_hint = RunningHint | PendingHint | NoHint

record DetailView =
  started_text :: "js_string \<times> js_string"
  completed_text :: "(js_string \<times> js_string) option"
  score_view :: score_section
  error_view :: "js_string option"
  hint_view :: status_hint

text \<open>
  The main \<open>return\<close> of \<open>AuditDetailPageContent\<close>, in the order it is evaluated: the start
  time, the completion time when \<open>completed_at\<close> is truthy, then the score section (the
  overview shows the clamped score), the error box when \<open>error\<close> is truthy, and the hint.
  An exception of a formatter ends the render.
\<close>

definition detail_view :: "DateLib \<Rightarrow> AuditResponse \<Rightarrow> render_exception + DetailView" where
  "detail_view L audit =
     and_then (formatRelativeTime L (started_at audit)) (\<lambda>started_relative.
     and_then
       (case completed_at audit of
          None \<Rightarrow> Inr None
        | Some c \<Rightarrow>
            (if c = [] then Inr None
             else and_then (formatRelativeTime L c) (\<lambda>completed_relative.
                    Inr (Some (formatDateTime L c, completed_relative))))) (\<lambda>completed_row.
       Inr \<lparr> started_text = (formatDateTime L (started_at audit), started_relative),
             completed_text = completed_row,
             score_view =
               (if AuditResponse.status audit = completed \<and> geo_score audit \<noteq> None
                then ScoreOverview (normalizedScore (the (geo_score audit)))
                       (geo_score_detail audit)
                else if AuditResponse.status audit = completed then NoScoreWarning
                else NoSection),
             error_view =
               (case AuditResponse.error audit of
                  None \<Rightarrow> None
                | Some m \<Rightarrow> (if m = [] then None else Some m)),
             hint_view =
               (if AuditResponse.status audit = running then RunningHint
                else if AuditResponse.status audit = pending then PendingHint
                else NoHint) \<rparr>))"





text \<open>The timestamps of an audit that the page formats are valid dates.\<close>

definition timestamps_parse :: "DateLib \<Rightarrow> AuditResponse \<Rightarrow> bool" where
  "timestamps_parse L audit =
     (is_valid L (started_at audit) \<and>
      (case completed_at audit of None \<Rightarrow> True | Some c \<Rightarrow> c = [] \<or> is_valid L c))"





section \<open>Properties\<close>

lemma z_min_nil: "z_min n s = [] \<longleftrightarrow> n \<le> length s"
  by (simp add: z_min_def)

lemma z_max_nil: "z_max n s = [] \<longleftrightarrow> length s \<le> n"
  by (simp add: z_max_def)

lemma brand_name_issues_of_form:
  "filter (\<lambda>i. path i = ''brand_name'') (auditFormSchema is_email is_url d) =
     at_path ''brand_name'' (brand_name_schema (AuditFormData.brand_name d))"
  by (simp add: auditFormSchema_def at_path_def core_product_keywords_schema_def filter_map
      comp_def filter_concat split_def)

text \<open>
  C6: the schema accepts a brand name exactly when its length (in code units, as
  \<open>s.length\<close> counts) is between 1 and 100; the empty name is rejected as too small, a
  longer one as too big. The issues the form's schema reports under \<open>brand_name\<close> are
  exactly these.
\<close>

theorem brand_name_accepted_iff:
  "(brand_name_schema s = [] \<longleftrightarrow> 1 \<le> length s \<and> length s \<le> 100) \<and>
   brand_name_schema [] = [too_small] \<and>
   (brand_name_schema s = [too_big] \<longleftrightarrow> 100 < length s) \<and>
   filter (\<lambda>i. path i = ''brand_name'') (auditFormSchema is_email is_url d) =
     at_path ''brand_name'' (brand_name_schema (AuditFormData.brand_name d))"
proof -
  have "brand_name_schema s = [] \<longleftrightarrow> 1 \<le> length s \<and> length s \<le> 100"
    by (cases s) (auto simp add: brand_name_schema_def z_min_def z_max_def)
  moreover have "brand_name_schema [] = [too_small]"
    by (simp add: brand_name_schema_def z_min_def z_max_def)
  moreover have "brand_name_schema s = [too_big] \<longleftrightarrow> 100 < length s"
    by (cases s) (auto simp add: brand_name_schema_def z_min_def z_max_def)
  ultimately show ?thesis
    using brand_name_issues_of_form [of is_email is_url d] by simp
qed

theorem brand_name_accepted_iff_witness:
  "brand_name_schema (of_ascii ''Dyson'') = [] \<and>
   brand_name_schema (replicate 100 0x61) = [] \<and>
   brand_name_schema (replicate 101 0x61) = [too_big] \<and>
   brand_name_schema [] = [too_small]"
  using brand_name_accepted_iff [of "of_ascii ''Dyson''"]
    brand_name_accepted_iff [of "replicate 100 0x61"]
    brand_name_accepted_iff [of "replicate 101 0x61"]
  by (simp add: of_ascii_def)

subsection \<open>Keywords of a submitted request\<close>

lemma split_not_Nil: "split sep s \<noteq> []"
  by (induction s) (auto split: list.splits)

lemma length_split: "length (split sep s) = Suc (count_list s sep)"
  by (induction s) (auto split: list.splits)

lemma length_keywordArray:
  "length (keywordArray d) \<le> Suc (count_list (AuditFormData.keywords d) comma)"
proof -
  have "length (keywordArray d) \<le> length (map trim (split comma (AuditFormData.keywords d)))"
    unfolding keywordArray_def by (rule length_filter_le)
  then show ?thesis by (simp add: length_split)
qed

lemma requestData_keywords_bounds:
  "1 \<le> length (AuditRequest.keywords (requestData d)) \<and>
   length (AuditRequest.keywords (requestData d))
     \<le> Suc (count_list (AuditFormData.keywords d) comma)"
proof (cases "keywordArray d = []")
  case True
  then show ?thesis by (simp add: requestData_def)
next
  case False
  then have "0 < length (keywordArray d)" by simp
  then show ?thesis
    using length_keywordArray [of d] by (simp add: requestData_def Suc_le_eq)
qed

text \<open>
  C5 (as the code has it): every request the form submits holds at least one keyword, and at
  most one more than the commas typed into the keywords field. The form has no cap of 20.
\<close>

theorem submitted_keywords_bounds:
  "handleSubmit is_email is_url d = Some r \<Longrightarrow>
     1 \<le> length (AuditRequest.keywords r) \<and>
     length (AuditRequest.keywords r) \<le> Suc (count_list (AuditFormData.keywords d) comma)"
  using requestData_keywords_bounds [of d]
  by (auto simp add: handleSubmit_def split: if_splits)

lemma example_form_valid:
  "kws \<noteq> [] \<Longrightarrow>
     auditFormSchema accepts_example_email accepts_example_url (example_form kws) = []"
  by (simp add: auditFormSchema_def example_form_def at_path_def brand_name_schema_def
      core_product_keywords_schema_def z_min_def z_max_def z_check_def
      accepts_example_email_def accepts_example_url_def of_ascii_def Suc_le_eq)

lemma keywords21_request:
  "AuditRequest.keywords (requestData (example_form keywords21)) =
     map of_ascii [''a'', ''b'', ''c'', ''d'', ''e'', ''f'', ''g'', ''h'', ''i'', ''j'', ''k'',
                   ''l'', ''m'', ''n'', ''o'', ''p'', ''q'', ''r'', ''s'', ''t'', ''u'']"
  by (simp add: requestData_def keywordArray_def example_form_def keywords21_def of_ascii_def
      comma_def trim_def is_ws_def)

theorem submitted_keywords_bounds_witness:
  "handleSubmit accepts_example_email accepts_example_url
       (example_form (of_ascii ''Dyson, XooPay'')) =
     Some (requestData (example_form (of_ascii ''Dyson, XooPay''))) \<and>
   AuditRequest.keywords (requestData (example_form (of_ascii ''Dyson, XooPay''))) =
     [of_ascii ''Dyson'', of_ascii ''XooPay''] \<and>
   1 \<le> length (AuditRequest.keywords (requestData (example_form (of_ascii ''Dyson, XooPay''))))"
proof -
  let ?d = "example_form (of_ascii ''Dyson, XooPay'')"
  have sub: "handleSubmit accepts_example_email accepts_example_url ?d = Some (requestData ?d)"
    by (simp add: handleSubmit_def example_form_valid of_ascii_def)
  have kws: "AuditRequest.keywords (requestData ?d) = [of_ascii ''Dyson'', of_ascii ''XooPay'']"
    by (simp add: requestData_def keywordArray_def example_form_def of_ascii_def
        comma_def trim_def is_ws_def)
  from submitted_keywords_bounds [OF sub] sub kws show ?thesis by simp
qed

text \<open>
  C5 as stated fails: a valid form with 21 comma-separated keywords is submitted with all 21.
\<close>

theorem submitted_keywords_cap_counterexample:
  "handleSubmit accepts_example_email accepts_example_url (example_form keywords21) =
     Some (requestData (example_form keywords21)) \<and>
   length (AuditRequest.keywords (requestData (example_form keywords21))) = 21 \<and>
   \<not> length (AuditRequest.keywords (requestData (example_form keywords21))) \<le> 20"
proof -
  have "keywords21 \<noteq> []" by (simp add: keywords21_def of_ascii_def)
  then have "handleSubmit accepts_example_email accepts_example_url (example_form keywords21) =
     Some (requestData (example_form keywords21))"
    by (simp add: handleSubmit_def example_form_valid)
  then show ?thesis by (simp add: keywords21_request)
qed

subsection \<open>The tag input\<close>

lemma remove_index_enumerate:
  "map snd (filter (\<lambda>(j, k). j \<noteq> i) (enumerate n xs)) =
     (if i < n then xs else take (i - n) xs @ drop (Suc (i - n)) xs)"
proof (induction xs arbitrary: n)
  case Nil
  show ?case by simp
next
  case (Cons x xs)
  show ?case
  proof (cases "i = n")
    case True
    then show ?thesis using Cons.IH [of "Suc n"] by simp
  next
    case False
    show ?thesis
    proof (cases "i < n")
      case True
      then show ?thesis using Cons.IH [of "Suc n"] by simp
    next
      case ge: False
      with False have "n < i" by simp
      then obtain m where m: "i - n = Suc m" "i - Suc n = m"
        by (metis Suc_diff_Suc)
      from \<open>n < i\<close> have "\<not> i < Suc n" by simp
      then show ?thesis using Cons.IH [of "Suc n"] False ge m by simp
    qed
  qed
qed

lemma removeCoreProductKeyword_eq:
  "coreProductKeywords (removeCoreProductKeyword i s) =
     take i (coreProductKeywords s) @ drop (Suc i) (coreProductKeywords s)"
  by (simp add: removeCoreProductKeyword_def remove_index_enumerate)

lemma tag_inv_keydown: "tag_inv s \<Longrightarrow> tag_inv (handleCoreProductKeywordKeyDown k s)"
  by (auto simp add: tag_inv_def handleCoreProductKeywordKeyDown_def Let_def distinct_butlast)

lemma tag_inv_remove: "tag_inv s \<Longrightarrow> tag_inv (removeCoreProductKeyword i s)"
proof -
  assume inv: "tag_inv s"
  let ?ks = "coreProductKeywords s"
  have "set (take i ?ks) \<inter> set (drop (Suc i) ?ks) = {}"
    using inv by (intro set_take_disj_set_drop_if_distinct) (simp_all add: tag_inv_def)
  moreover have "length (take i ?ks @ drop (Suc i) ?ks) \<le> length ?ks"
    by simp
  ultimately show ?thesis
    using inv unfolding tag_inv_def removeCoreProductKeyword_eq
    by (simp del: length_append)
qed

lemma tag_inv_step: "tag_inv s \<Longrightarrow> tag_inv (tag_step s e)"
  by (cases e) (simp_all add: tag_inv_keydown tag_inv_remove, simp add: tag_inv_def)

lemma tag_inv_run: "tag_inv (tag_run es)"
proof (induction es rule: rev_induct)
  case Nil
  show ?case by (simp add: tag_run_def tag_init_def tag_inv_def)
next
  case (snoc e es)
  then show ?case by (simp add: tag_run_def tag_inv_step)
qed

text \<open>
  C10: after any sequence of key presses, edits and removals the keyword list holds at most
  3 entries and no duplicate, so the schema's \<open>max(3)\<close> never fires on it. Enter or a comma
  appends the trimmed input exactly when it is non-empty, not yet present and the list has
  fewer than 3 entries; the remove handler deletes exactly the entry at its index.
\<close>

theorem core_product_keywords_invariant:
  "length (coreProductKeywords (tag_run es)) \<le> 3 \<and>
   distinct (coreProductKeywords (tag_run es)) \<and>
   z_max 3 (coreProductKeywords (tag_run es)) = [] \<and>
   coreProductKeywords (handleCoreProductKeywordKeyDown Enter s) =
     (if trim (coreProductKeywordInput s) \<noteq> [] \<and>
         trim (coreProductKeywordInput s) \<notin> set (coreProductKeywords s) \<and>
         length (coreProductKeywords s) < 3
      then coreProductKeywords s @ [trim (coreProductKeywordInput s)]
      else coreProductKeywords s) \<and>
   handleCoreProductKeywordKeyDown Comma s = handleCoreProductKeywordKeyDown Enter s \<and>
   coreProductKeywords (removeCoreProductKeyword i s) =
     take i (coreProductKeywords s) @ drop (Suc i) (coreProductKeywords s)"
proof -
  have inv: "tag_inv (tag_run es)" by (rule tag_inv_run)
  then have "length (coreProductKeywords (tag_run es)) \<le> 3"
    and "distinct (coreProductKeywords (tag_run es))"
    by (simp_all add: tag_inv_def)
  moreover from inv have "z_max 3 (coreProductKeywords (tag_run es)) = []"
    by (simp add: z_max_nil tag_inv_def)
  moreover have "coreProductKeywords (handleCoreProductKeywordKeyDown Enter s) =
     (if trim (coreProductKeywordInput s) \<noteq> [] \<and>
         trim (coreProductKeywordInput s) \<notin> set (coreProductKeywords s) \<and>
         length (coreProductKeywords s) < 3
      then coreProductKeywords s @ [trim (coreProductKeywordInput s)]
      else coreProductKeywords s)"
    by (simp add: handleCoreProductKeywordKeyDown_def Let_def)
  moreover have "handleCoreProductKeywordKeyDown Comma s = handleCoreProductKeywordKeyDown Enter s"
    by (simp add: handleCoreProductKeywordKeyDown_def)
  ultimately show ?thesis
    using removeCoreProductKeyword_eq [of i s] by blast
qed

theorem core_product_keywords_invariant_witness:
  "coreProductKeywords (tag_run example_tag_events) =
     [of_ascii ''fan'', of_ascii ''air'', of_ascii ''dry''] \<and>
   length (coreProductKeywords (tag_run example_tag_events)) \<le> 3 \<and>
   coreProductKeywords (tag_run (example_tag_events @ [Remove 0])) =
     [of_ascii ''air'', of_ascii ''dry'']"
proof -
  have ks: "coreProductKeywords (tag_run example_tag_events) =
      [of_ascii ''fan'', of_ascii ''air'', of_ascii ''dry'']"
    by (simp add: tag_run_def example_tag_events_def tag_init_def
        handleCoreProductKeywordKeyDown_def Let_def trim_def is_ws_def of_ascii_def)
  have "tag_run (example_tag_events @ [Remove 0]) =
      removeCoreProductKeyword 0 (tag_run example_tag_events)"
    by (simp add: tag_run_def)
  with core_product_keywords_invariant [of example_tag_events "tag_run example_tag_events" 0] ks
  show ?thesis by simp
qed

subsection \<open>The status filter\<close>

text \<open>
  C9: with a filter other than \<open>'all'\<close> the filtered list holds exactly the audits of the
  input with that status; with \<open>'all'\<close> it is the input list.
\<close>

theorem filteredAudits_sound_complete:
  "(statusFilter \<noteq> all \<longrightarrow>
      (\<forall>a \<in> set (filteredAudits audits statusFilter). AuditResponse.status a = statusFilter \<and> a \<in> set audits) \<and>
      (\<forall>a \<in> set audits. AuditResponse.status a = statusFilter \<longrightarrow> a \<in> set (filteredAudits audits statusFilter))) \<and>
   filteredAudits audits all = audits"
  by (auto simp add: filteredAudits_def)

theorem filteredAudits_sound_complete_witness:
  "completed \<noteq> all \<and>
   filteredAudits
     [example_audit ''a1'' completed, example_audit ''a2'' running, example_audit ''a3'' completed]
     completed = [example_audit ''a1'' completed, example_audit ''a3'' completed] \<and>
   example_audit ''a3'' completed \<in> set (filteredAudits
     [example_audit ''a1'' completed, example_audit ''a2'' running, example_audit ''a3'' completed]
     completed) \<and>
   filteredAudits
     [example_audit ''a1'' completed, example_audit ''a2'' running, example_audit ''a3'' completed]
     all =
     [example_audit ''a1'' completed, example_audit ''a2'' running, example_audit ''a3'' completed]"
proof -
  let ?as = "[example_audit ''a1'' completed, example_audit ''a2'' running,
              example_audit ''a3'' completed]"
  have ne: "completed \<noteq> all" by simp
  have mem: "example_audit ''a3'' completed \<in> set ?as" by simp
  have st: "AuditResponse.status (example_audit ''a3'' completed) = completed"
    by (simp add: example_audit_def)
  from filteredAudits_sound_complete [of completed ?as] ne mem st
  have "example_audit ''a3'' completed \<in> set (filteredAudits ?as completed)"
    and "filteredAudits ?as all = ?as"
    by blast+
  moreover have "filteredAudits ?as completed =
      [example_audit ''a1'' completed, example_audit ''a3'' completed]"
    by (simp add: filteredAudits_def example_audit_def)
  ultimately show ?thesis using ne by simp
qed

subsection \<open>The displayed score\<close>

text \<open>
  C4: the displayed score lies in [0, 100] for every real input, and an input already in
  [0, 100] is displayed unchanged.
\<close>

theorem normalizedScore_clamped:
  "0 \<le> normalizedScore x \<and> normalizedScore x \<le> 100 \<and>
   (0 \<le> x \<and> x \<le> 100 \<longrightarrow> normalizedScore x = x)"
  by (simp add: normalizedScore_def)

theorem normalizedScore_clamped_witness:
  "(0::real) \<le> 66.7 \<and> (66.7::real) \<le> 100 \<and> normalizedScore 66.7 = 66.7 \<and>
   normalizedScore 250 = 100 \<and> normalizedScore (- 3) = 0"
  using normalizedScore_clamped [of "66.7"]
  by (simp add: normalizedScore_def)

subsection \<open>Polling\<close>











subsection \<open>extractApiError\<close>

lemma get_prop_truthy: "truthy v \<Longrightarrow> get_prop v k = Inr (prop_of v k)"
  by (cases v) (auto simp add: truthy_def get_prop_def prop_of_def split: option.splits)

lemma opt_chain_prop: "opt_chain v k = Inr (prop_of v k)"
  by (cases v) (auto simp add: opt_chain_def get_prop_def prop_of_def split: option.splits)

lemma get_prop_Obj: "get_prop (Obj c props) k = Inr (prop_of (Obj c props) k)"
  by (auto simp add: get_prop_def prop_of_def split: option.splits)

lemma in_response_Obj:
  "in_op ''response'' (Obj c props) = Inr (map_of props ''response'' \<noteq> None)"
  by (simp add: in_op_def inherited_def)

lemma prop_response_absent:
  "map_of props ''response'' = None \<Longrightarrow> prop_of (Obj c props) ''response'' = Undefined"
  by (simp add: prop_of_def get_prop_def inherited_def)

lemma prop_primitive: "typeof v \<noteq> ''object'' \<Longrightarrow> prop_of v k = Undefined"
  by (cases v) (simp_all add: typeof_def prop_of_def get_prop_def)

text \<open>The function never throws; its three branches, by what it reads.\<close>

lemma extractApiError_eq:
  "extractApiError v =
     Inr (if truthy (prop_of v ''response'') then
            \<lparr> message = js_or (prop_of (prop_of (prop_of v ''response'') ''data'') ''error'')
                          request_failed_message,
              status = prop_of (prop_of v ''response'') ''status'',
              detail = prop_of (prop_of (prop_of v ''response'') ''data'') ''detail'' \<rparr>
          else if instanceof_Error v then
            \<lparr> message = js_or (prop_of v ''message'') unknown_error_message,
              status = Undefined, detail = Undefined \<rparr>
          else
            \<lparr> message = unknown_error_message, status = Undefined, detail = Undefined \<rparr>)"
proof (cases "\<exists>c props. v = Obj c props")
  case True
  then obtain c props where v: "v = Obj c props" by blast
  show ?thesis
  proof (cases "map_of props ''response''")
    case None
    then have "prop_of v ''response'' = Undefined"
      unfolding v by (rule prop_response_absent)
    then show ?thesis
      using None
      by (simp add: extractApiError_def v typeof_def in_response_Obj and_then_def
          get_prop_Obj truthy_def)
  next
    case (Some r)
    then have r: "prop_of v ''response'' = r"
      by (simp add: v prop_of_def get_prop_def)
    show ?thesis
    proof (cases "truthy r")
      case True
      then show ?thesis
        using Some r
        by (simp add: extractApiError_def v typeof_def in_response_Obj and_then_def
            get_prop_Obj get_prop_truthy opt_chain_prop)
    next
      case False
      then show ?thesis
        using Some r
        by (simp add: extractApiError_def v typeof_def in_response_Obj and_then_def
            get_prop_Obj)
    qed
  qed
next
  case False
  then have prim: "typeof v \<noteq> ''object'' \<or> v = Null"
    by (cases v) (simp_all add: typeof_def)
  then have "prop_of v ''response'' = Undefined"
    by (cases v) (simp_all add: typeof_def prop_of_def get_prop_def)
  moreover have "\<not> instanceof_Error v"
    using False by (cases v) (simp_all add: instanceof_Error_def)
  ultimately show ?thesis
    using prim by (auto simp add: extractApiError_def and_then_def truthy_def)
qed

lemma js_or_truthy: "truthy b \<Longrightarrow> truthy (js_or a b)"
  by (simp add: js_or_def)

lemma js_or_string:
  "is_string_or_nullish a \<Longrightarrow> is_nonempty_string b \<Longrightarrow> is_nonempty_string (js_or a b)"
  by (cases a) (simp_all add: js_or_def truthy_def is_string_or_nullish_def is_nonempty_string_def)

lemma default_messages:
  "truthy request_failed_message" "truthy unknown_error_message"
  "is_nonempty_string request_failed_message" "is_nonempty_string unknown_error_message"
  by (simp_all add: request_failed_message_def unknown_error_message_def truthy_def
      is_nonempty_string_def)

text \<open>
  C8 (as the code has it): \<open>extractApiError\<close> never throws, and the message it returns is
  never falsy. The message is a non-empty string whenever the \<open>error\<close> of the response data
  and the message of the \<open>Error\<close> are strings or absent, as \<open>ErrorResponse\<close> and \<open>Error\<close>
  declare them. It is the request-failed default when a response carries no error text,
  and the unknown-error default when there is no response and no message of an \<open>Error\<close>.
\<close>

theorem extractApiError_total:
  "\<exists>r. extractApiError v = Inr r \<and>
        truthy (message r) \<and>
        (is_string_or_nullish (prop_of (prop_of (prop_of v ''response'') ''data'') ''error'') \<and>
         is_string_or_nullish (prop_of v ''message'')
           \<longrightarrow> is_nonempty_string (message r)) \<and>
        (truthy (prop_of v ''response'') \<and>
         \<not> truthy (prop_of (prop_of (prop_of v ''response'') ''data'') ''error'')
           \<longrightarrow> message r = request_failed_message) \<and>
        (\<not> truthy (prop_of v ''response'') \<and> \<not> (instanceof_Error v \<and> truthy (prop_of v ''message''))
           \<longrightarrow> message r = unknown_error_message)"
proof -
  let ?e = "prop_of (prop_of (prop_of v ''response'') ''data'') ''error''"
  let ?m = "prop_of v ''message''"
  consider (response) "truthy (prop_of v ''response'')"
    | (error) "\<not> truthy (prop_of v ''response'')" "instanceof_Error v"
    | (other) "\<not> truthy (prop_of v ''response'')" "\<not> instanceof_Error v"
    by blast
  then show ?thesis
  proof cases
    case response
    have "truthy (js_or ?e request_failed_message)"
      by (rule js_or_truthy) (rule default_messages)
    moreover have "is_string_or_nullish ?e \<Longrightarrow> is_nonempty_string (js_or ?e request_failed_message)"
      by (rule js_or_string) (simp_all add: default_messages)
    moreover have "\<not> truthy ?e \<Longrightarrow> js_or ?e request_failed_message = request_failed_message"
      by (simp add: js_or_def)
    ultimately show ?thesis
      using response by (simp add: extractApiError_eq)
  next
    case error
    have "truthy (js_or ?m unknown_error_message)"
      by (rule js_or_truthy) (rule default_messages)
    moreover have "is_string_or_nullish ?m \<Longrightarrow> is_nonempty_string (js_or ?m unknown_error_message)"
      by (rule js_or_string) (simp_all add: default_messages)
    moreover have "\<not> truthy ?m \<Longrightarrow> js_or ?m unknown_error_message = unknown_error_message"
      by (simp add: js_or_def)
    ultimately show ?thesis
      using error by (simp add: extractApiError_eq)
  next
    case other
    then show ?thesis
      by (simp add: extractApiError_eq default_messages)
  qed
qed

theorem extractApiError_total_witness:
  "extractApiError example_axios_404 =
     Inr \<lparr> message = Str (of_ascii ''Not found''), status = Num 404,
           detail = Str (of_ascii ''no such audit'') \<rparr> \<and>
   is_nonempty_string (Str (of_ascii ''Not found'')) \<and>
   extractApiError example_axios_detail_only =
     Inr \<lparr> message = request_failed_message, status = Num 404,
           detail = Str (of_ascii ''Not Found'') \<rparr> \<and>
   extractApiError example_thrown_string =
     Inr \<lparr> message = unknown_error_message, status = Undefined, detail = Undefined \<rparr>"
proof -
  have e1: "prop_of (prop_of (prop_of example_axios_404 ''response'') ''data'') ''error''
              = Str (of_ascii ''Not found'')"
    and m1: "prop_of example_axios_404 ''message''
              = Str (of_ascii ''Request failed with status code 404'')"
    by (simp_all add: example_axios_404_def prop_of_def get_prop_def)
  have v1: "extractApiError example_axios_404 =
     Inr \<lparr> message = Str (of_ascii ''Not found''), status = Num 404,
           detail = Str (of_ascii ''no such audit'') \<rparr>"
    by (simp add: extractApiError_def example_axios_404_def and_then_def typeof_def in_op_def
        get_prop_def opt_chain_def truthy_def js_or_def of_ascii_def)
  from extractApiError_total [of example_axios_404] e1 m1 v1
  have s1: "is_nonempty_string (Str (of_ascii ''Not found''))"
    by (auto simp add: is_string_or_nullish_def)
  have r2: "truthy (prop_of example_axios_detail_only ''response'')"
    and e2: "prop_of (prop_of (prop_of example_axios_detail_only ''response'') ''data'') ''error''
              = Undefined"
    and st2: "prop_of (prop_of example_axios_detail_only ''response'') ''status'' = Num 404"
    and d2: "prop_of (prop_of (prop_of example_axios_detail_only ''response'') ''data'') ''detail''
              = Str (of_ascii ''Not Found'')"
    by (simp_all add: example_axios_detail_only_def prop_of_def get_prop_def truthy_def
        inherited_def)
  from extractApiError_total [of example_axios_detail_only] r2 e2 st2 d2
  have v2: "extractApiError example_axios_detail_only =
     Inr \<lparr> message = request_failed_message, status = Num 404,
           detail = Str (of_ascii ''Not Found'') \<rparr>"
    by (auto simp add: truthy_def extractApiError_eq js_or_def)
  have r3: "prop_of example_thrown_string ''response'' = Undefined"
    and i3: "\<not> instanceof_Error example_thrown_string"
    by (simp_all add: example_thrown_string_def prop_of_def get_prop_def instanceof_Error_def)
  from extractApiError_total [of example_thrown_string] r3 i3
  have v3: "extractApiError example_thrown_string =
     Inr \<lparr> message = unknown_error_message, status = Undefined, detail = Undefined \<rparr>"
    by (auto simp add: truthy_def extractApiError_eq)
  from v1 s1 v2 v3 show ?thesis by simp
qed

text \<open>
  C8 as stated fails: when the server's response data carries an \<open>error\<close> that is not a
  string (here an object), that value is returned as the message.
\<close>

theorem extractApiError_message_counterexample:
  "extractApiError example_error_object_response =
     Inr \<lparr> message = Obj PlainObject [(''message'', Str (of_ascii ''rate limited''))],
           status = Num 429, detail = Undefined \<rparr> \<and>
   \<not> is_nonempty_string (Obj PlainObject [(''message'', Str (of_ascii ''rate limited''))])"
  by (simp add: extractApiError_def example_error_object_response_def and_then_def typeof_def
      in_op_def get_prop_def opt_chain_def truthy_def js_or_def inherited_def
      is_nonempty_string_def)

subsection \<open>The Geo Scorer\<close>

lemma clamp100_range: "0 \<le> clamp100 x \<and> clamp100 x \<le> 100"
  by (simp add: clamp100_def)

lemma clamp100_id: "0 \<le> x \<Longrightarrow> x \<le> 100 \<Longrightarrow> clamp100 x = x"
  by (simp add: clamp100_def)

lemma default_weighted_sum_range:
  fixes s c r a :: real
  assumes "0 \<le> s" "s \<le> 100" "0 \<le> c" "c \<le> 100" "0 \<le> r" "r \<le> 100" "0 \<le> a" "a \<le> 100"
  shows "0 \<le> 0.4 * s + 0.3 * c + 0.2 * r + 0.1 * a"
    and "0.4 * s + 0.3 * c + 0.2 * r + 0.1 * a \<le> 100"
  using assms by linarith+

lemma som_of_nonempty:
  "results \<noteq> [] \<Longrightarrow>
     som_of results = Inr (real (mentioned_count results) / real (length results) * 100)"
  by (simp add: som_of_def)

text \<open>
  C1: on the empty list the scorer returns (and does not raise) the zero score: overall 0,
  every breakdown field 0, interval {0, 0}, test count 0, and the reason flag
  \<open>insufficient_data\<close>.
\<close>

theorem score_empty:
  "\<exists>g. score P [] w = Inr g \<and>
        overall_score g = 0 \<and>
        som_score (breakdown g) = 0 \<and> som_percentage (breakdown g) = 0 \<and>
        citation_score (breakdown g) = 0 \<and> official_citations (breakdown g) = 0 \<and>
        authoritative_citations (breakdown g) = 0 \<and> ranking_score (breakdown g) = 0 \<and>
        average_ranking (breakdown g) = Some 0 \<and> top3_count (breakdown g) = 0 \<and>
        accuracy_score (breakdown g) = 0 \<and> accuracy_percentage (breakdown g) = 0 \<and>
        hallucination_count (breakdown g) = 0 \<and>
        confidence_interval g = Some \<lparr> lower = 0, upper = 0 \<rparr> \<and>
        test_count g = 0 \<and>
        reason g = Some insufficient_data"
  by (simp add: score_def zero_breakdown_def)

theorem score_empty_witness:
  "score example_parts [] default_weights = Inr zero_score \<and> overall_score zero_score = 0 \<and>
   reason zero_score = Some insufficient_data"
  using score_empty [of example_parts default_weights]
  by (simp add: score_def zero_score_def example_parts_def)

text \<open>
  C2: with the default weights the scorer's overall score is exactly
  0.4 som + 0.3 citation + 0.2 ranking + 0.1 accuracy of its breakdown (in exact arithmetic,
  so within every rounding tolerance), which is also the sum of weight times score over the
  rows of the client's bar chart; the four default weights sum to 1.
\<close>

theorem weighted_sum_identity:
  "(\<exists>g. score P results default_weights = Inr g \<and>
        overall_score g =
          0.4 * som_score (breakdown g) + 0.3 * citation_score (breakdown g) +
          0.2 * ranking_score (breakdown g) + 0.1 * accuracy_score (breakdown g) \<and>
        map weight (barData g) = [0.4, 0.3, 0.2, 0.1] \<and>
        overall_score g = sum_list (map (\<lambda>b. weight b * BarDatum.score b) (barData g))) \<and>
   som default_weights + citation default_weights + ranking default_weights +
     accuracy default_weights = 1"
proof -
  have bars: "map weight (barData g) = [0.4, 0.3, 0.2, 0.1] \<and>
      sum_list (map (\<lambda>b. weight b * BarDatum.score b) (barData g)) =
        0.4 * som_score (breakdown g) + 0.3 * citation_score (breakdown g) +
        0.2 * ranking_score (breakdown g) + 0.1 * accuracy_score (breakdown g)"
    if "weights g = default_weights" for g
    using that by (simp add: barData_def num_or_def default_weights_def)
  have total: "som default_weights + citation default_weights + ranking default_weights +
     accuracy default_weights = 1"
    by (simp add: default_weights_def)
  show ?thesis
  proof (cases "results = []")
    case True
    let ?g = "\<lparr> overall_score = 0, breakdown = zero_breakdown, weights = default_weights,
              confidence_interval = Some \<lparr> lower = 0, upper = 0 \<rparr>, test_count = 0,
              models_tested = [], keywords_tested = [], timestamp = now P,
              reason = Some insufficient_data \<rparr>"
    have "score P results default_weights = Inr ?g"
      using True by (simp add: score_def)
    moreover have "overall_score ?g =
          0.4 * som_score (breakdown ?g) + 0.3 * citation_score (breakdown ?g) +
          0.2 * ranking_score (breakdown ?g) + 0.1 * accuracy_score (breakdown ?g)"
      by (simp add: zero_breakdown_def)
    moreover have "weights ?g = default_weights" by simp
    ultimately show ?thesis
      using bars [of ?g] total by (intro conjI exI [of _ ?g]) simp_all
  next
    case False
    define s where "s = clamp100 (real (mentioned_count results) / real (length results) * 100)"
    define c where "c = clamp100 (citation_fn P (sum_list (map official_citation_count results))
        (sum_list (map authoritative_citation_count results)))"
    define r where "r = clamp100 (ranking_fn P (rankings results))"
    define a where "a = clamp100 (accuracy_fn P results)"
    have rng: "0 \<le> s" "s \<le> 100" "0 \<le> c" "c \<le> 100" "0 \<le> r" "r \<le> 100" "0 \<le> a" "a \<le> 100"
      by (simp_all add: s_def c_def r_def a_def clamp100_range)
    have cl: "clamp100 (0.4 * s + 0.3 * c + 0.2 * r + 0.1 * a) = 0.4 * s + 0.3 * c + 0.2 * r + 0.1 * a"
      by (rule clamp100_id) (rule default_weighted_sum_range [OF rng])+
    obtain g where g: "score P results default_weights = Inr g"
      and ov: "overall_score g = clamp100 (0.4 * s + 0.3 * c + 0.2 * r + 0.1 * a)"
      and bd: "som_score (breakdown g) = s" "citation_score (breakdown g) = c"
        "ranking_score (breakdown g) = r" "accuracy_score (breakdown g) = a"
      and wg: "weights g = default_weights"
      using False
      by (simp add: score_def som_of_nonempty and_then_def Let_def s_def c_def r_def a_def
          default_weights_def)
    from ov cl bd have "overall_score g =
          0.4 * som_score (breakdown g) + 0.3 * citation_score (breakdown g) +
          0.2 * ranking_score (breakdown g) + 0.1 * accuracy_score (breakdown g)"
      by simp
    with g bars [OF wg] total show ?thesis
      by (intro conjI exI [of _ g]) simp_all
  qed
qed

text \<open>
  The worked scenario of the specification: 6 probes, the brand mentioned in 4, two official
  citations and one authoritative, no ground truth.
\<close>

theorem weighted_sum_identity_witness:
  "\<exists>g. score example_parts six_probes default_weights = Inr g \<and>
        som_score (breakdown g) = 200 / 3 \<and> citation_score (breakdown g) = 50 \<and>
        ranking_score (breakdown g) = 75 \<and> accuracy_score (breakdown g) = 50 \<and>
        test_count g = 6 \<and> overall_score g = 185 / 3"
proof -
  from weighted_sum_identity [of example_parts six_probes]
  obtain g where g: "score example_parts six_probes default_weights = Inr g"
    and ov: "overall_score g =
          0.4 * som_score (breakdown g) + 0.3 * citation_score (breakdown g) +
          0.2 * ranking_score (breakdown g) + 0.1 * accuracy_score (breakdown g)"
    by blast
  from g have bd: "som_score (breakdown g) = 200 / 3" "citation_score (breakdown g) = 50"
      "ranking_score (breakdown g) = 75" "accuracy_score (breakdown g) = 50" "test_count g = 6"
    by (auto simp add: score_def six_probes_def example_probe_def example_parts_def
        som_of_def mentioned_count_def and_then_def Let_def clamp100_def rankings_def)
  from ov bd have "overall_score g = 185 / 3" by simp
  with g bd show ?thesis by blast
qed

subsection \<open>The render of the audit detail page\<close>


lemma detail_view_unparsed:
  "\<not> timestamps_parse L audit \<Longrightarrow> detail_view L audit = Inl RangeError"
  by (auto simp add: timestamps_parse_def detail_view_def formatRelativeTime_def and_then_def
      split: option.splits)




end
